theory Spec2Isabelle
  imports Main "HOL-Library.Word"
begin

section \<open>The PNG to black-and-white BMP script\<close>

text \<open>
  The program is the straight-line script \<^verbatim>\<open>png_to_bw_bmp.py\<close>:
  \<^verbatim>\<open>
  img = Image.open("prism_logo.png")
  bw = img.convert("L").point(lambda x: 0 if x < 128 else 255, '1')
  bw.save("prism_logo_bw.bmp")
  \<close>
  The script's own code is the threshold lambda, the order of the three calls and the two
  file names. The calls themselves belong to the imaging library. The library's operations
  on an 8-bit single-band buffer are written out below as the library documents them; its
  file decoder, its colour-to-luminance formula and its BMP encoder are parameters
  (\<open>decode\<close>, \<open>luma\<close>, \<open>encode\<close>) of the definitions that use them.
\<close>

subsection \<open>Image buffers\<close>

type_synonym byte = "8 word"

text \<open>
  An image carries its mode string (\<^verbatim>\<open>"L"\<close>, \<^verbatim>\<open>"1"\<close>, \<^verbatim>\<open>"RGB"\<close>, ...),
  its size and its raw band bytes in row-major order. In the modes \<^verbatim>\<open>"L"\<close> and
  \<^verbatim>\<open>"1"\<close> there is one byte for each pixel.
\<close>

record image =
  mode :: string
  width :: nat
  height :: nat
  data :: "byte list"

subsection \<open>Line 7: grayscale conversion and threshold\<close>

text \<open>The lambda \<^verbatim>\<open>lambda x: 0 if x < 128 else 255\<close>, on Python integers.\<close>

definition threshold :: "int \<Rightarrow> int" where
  "threshold x = (if x < 128 then 0 else 255)"

text \<open>
  \<^verbatim>\<open>point\<close> with a callable evaluates it once on each of \<^verbatim>\<open>range(256)\<close>, clips
  every result to an unsigned byte, and maps each band byte through the resulting table.
\<close>

definition clip8 :: "int \<Rightarrow> byte" where
  "clip8 v = (if v \<le> 0 then 0 else if v < 256 then word_of_int v else 255)"

definition lut_of :: "(int \<Rightarrow> int) \<Rightarrow> byte list" where
  "lut_of f = map (\<lambda>i. clip8 (f (int i))) [0..<256]"

definition point :: "(int \<Rightarrow> int) \<Rightarrow> string \<Rightarrow> image \<Rightarrow> image" where
  "point f m im = im\<lparr>mode := m, data := map (\<lambda>v. lut_of f ! unat v) (data im)\<rparr>"

text \<open>
  \<^verbatim>\<open>convert("L")\<close> returns a copy of an image that already has mode \<^verbatim>\<open>"L"\<close>;
  for any other mode the library's conversion \<open>luma\<close> of that mode produces the
  luminance bytes. The size is kept.
\<close>

definition convert_L :: "(string \<Rightarrow> byte list \<Rightarrow> byte list) \<Rightarrow> image \<Rightarrow> image" where
  "convert_L luma im =
     (if mode im = ''L'' then im
      else im\<lparr>mode := ''L'', data := luma (mode im) (data im)\<rparr>)"

definition bw :: "(string \<Rightarrow> byte list \<Rightarrow> byte list) \<Rightarrow> image \<Rightarrow> image" where
  "bw luma img = point threshold ''1'' (convert_L luma img)"

subsection \<open>Lines 4 and 13: the files\<close>

type_synonym path = string

text \<open>
  A world holds the files and, for each path, how a write to it goes: it completes, it is
  refused when the file is opened (a read-only path), or it breaks after the file was
  opened (a full disk), leaving what the world says: a truncated or empty file, or none.
\<close>

datatype write_outcome = Completes | Refused | Breaks "byte list option"

record world =
  files :: "path \<rightharpoonup> byte list"
  writes :: "path \<Rightarrow> write_outcome"

datatype error = InputError | OutputError

text \<open>
  \<^verbatim>\<open>Image.open\<close> raises when the file is missing or when the library cannot decode it.
  Decoding is lazy in the library (the pixels are read by the first operation that needs
  them, here \<^verbatim>\<open>convert\<close>); both failures precede \<^verbatim>\<open>save\<close>, and the model joins them.
\<close>

definition open_image :: "(byte list \<Rightarrow> image option) \<Rightarrow> world \<Rightarrow> path \<Rightarrow> error + image" where
  "open_image decode w p =
     (case files w p of
        None \<Rightarrow> Inl InputError
      | Some bs \<Rightarrow> (case decode bs of None \<Rightarrow> Inl InputError | Some im \<Rightarrow> Inr im))"



text \<open>
  \<^verbatim>\<open>save\<close> opens the path for writing and writes the encoding. A refused open raises
  and changes nothing; a write that breaks raises and leaves the file as the world has it;
  otherwise the file is replaced by the encoding.
\<close>

definition save ::
  "(image \<Rightarrow> byte list) \<Rightarrow> image \<Rightarrow> path \<Rightarrow> world \<Rightarrow> error option \<times> world" where
  "save encode im p w =
     (case writes w p of
        Completes \<Rightarrow> (None, w\<lparr>files := (files w)(p \<mapsto> encode im)\<rparr>)
      | Refused \<Rightarrow> (Some OutputError, w)
      | Breaks left \<Rightarrow> (Some OutputError, w\<lparr>files := (files w)(p := left)\<rparr>))"

text \<open>
  The whole script. No exception is caught: the first error ends the run, with the world
  as it is at that moment.
\<close>

definition script ::
  "(byte list \<Rightarrow> image option) \<Rightarrow> (string \<Rightarrow> byte list \<Rightarrow> byte list) \<Rightarrow> (image \<Rightarrow> byte list)
     \<Rightarrow> world \<Rightarrow> error option \<times> world" where
  "script decode luma encode w =
     (case open_image decode w ''prism_logo.png'' of
        Inl e \<Rightarrow> (Some e, w)
      | Inr img \<Rightarrow> save encode (bw luma img) ''prism_logo_bw.bmp'' w)"


section \<open>The threshold table\<close>

lemma length_lut_of: "length (lut_of f) = 256"
  by (simp add: lut_of_def)

lemma unat_byte_less: "unat (v :: byte) < 256"
  using unsigned_less [of v, where ?'a = nat] by simp

lemma lut_of_nth: "lut_of f ! unat (v :: byte) = clip8 (f (uint v))"
  using unat_byte_less [of v] by (simp add: lut_of_def)

lemma clip8_threshold: "clip8 (threshold x) = (if x < 128 then 0 else 255)"
  by (simp add: clip8_def threshold_def)

lemma uint_less_iff_unat: "uint (v :: byte) < 128 \<longleftrightarrow> unat v < 128"
proof -
  have "uint v = int (unat v)" by (rule uint_nat)
  then show ?thesis by presburger
qed

lemma lut_threshold: "lut_of threshold ! unat (v :: byte) = (if unat v < 128 then 0 else 255)"
  by (simp only: lut_of_nth clip8_threshold uint_less_iff_unat)

lemma data_point: "data (point f m im) = map (\<lambda>v. lut_of f ! unat v) (data im)"
  by (simp add: point_def)

lemma data_point_threshold:
  "data (point threshold m im) = map (\<lambda>v. if unat v < 128 then 0 else 255) (data im)"
  by (simp add: data_point lut_threshold)

section \<open>Sizes, modes and the two outcomes of a run\<close>

lemma width_point: "width (point f m im) = width im"
  by (simp add: point_def)

lemma height_point: "height (point f m im) = height im"
  by (simp add: point_def)

lemma mode_point: "mode (point f m im) = m"
  by (simp add: point_def)

lemma width_convert_L: "width (convert_L luma im) = width im"
  by (simp add: convert_L_def)

lemma height_convert_L: "height (convert_L luma im) = height im"
  by (simp add: convert_L_def)

lemma mode_convert_L: "mode (convert_L luma im) = ''L''"
  by (simp add: convert_L_def)

lemma convert_L_gray: "mode im = ''L'' \<Longrightarrow> convert_L luma im = im"
  by (simp add: convert_L_def)

lemma width_bw: "width (bw luma img) = width img"
  by (simp add: bw_def width_point width_convert_L)

lemma height_bw: "height (bw luma img) = height img"
  by (simp add: bw_def height_point height_convert_L)

lemma mode_bw: "mode (bw luma img) = ''1''"
  by (simp add: bw_def mode_point)

lemma data_bw:
  "data (bw luma img) = map (\<lambda>v. if unat v < 128 then 0 else 255) (data (convert_L luma img))"
  by (simp add: bw_def data_point_threshold)

lemma binary_fixed:
  "(v :: byte) = 0 \<or> v = 255 \<Longrightarrow> (if unat v < 128 then 0 else 255) = v"
  by auto

lemma map_const_replicate: "\<forall>x\<in>set xs. f x = c \<Longrightarrow> map f xs = replicate (length xs) c"
  by (induction xs) simp_all

lemma script_ok:
  assumes "files w ''prism_logo.png'' = Some bs" and "decode bs = Some img"
    and "writes w ''prism_logo_bw.bmp'' = Completes"
  shows "script decode luma encode w =
    (None, w\<lparr>files := (files w)(''prism_logo_bw.bmp'' \<mapsto> encode (bw luma img))\<rparr>)"
  using assms by (simp add: script_def open_image_def save_def)

lemma script_None:
  assumes "fst (script decode luma encode w) = None"
  shows "\<exists>bs img. files w ''prism_logo.png'' = Some bs \<and> decode bs = Some img
    \<and> writes w ''prism_logo_bw.bmp'' = Completes"
  using assms
  by (auto simp: script_def open_image_def save_def split: option.splits write_outcome.splits)

lemma bw_binary: "\<forall>v\<in>set (data (bw luma img)). v = 0 \<or> v = 255"
  by (auto simp add: data_bw)

section \<open>The properties of the script\<close>

text \<open>
  Claim C1. The threshold step maps a grayscale byte to black (0) when its value is below
  128 and to white (255) otherwise: the byte 128 becomes white, and an output pixel is
  black exactly when its luminance is strictly less than 128. The same holds of the lambda
  on integers.
\<close>

theorem threshold_step:
  assumes "i < length (data g)"
  shows "data (point threshold ''1'' g) ! i = (if unat (data g ! i) < 128 then 0 else 255)
    \<and> (data (point threshold ''1'' g) ! i = 0 \<longleftrightarrow> unat (data g ! i) < 128)
    \<and> (data g ! i = 128 \<longrightarrow> data (point threshold ''1'' g) ! i = 255)
    \<and> threshold 128 = 255
    \<and> (threshold x = 0 \<longleftrightarrow> x < 128)"
  using assms by (auto simp add: data_point_threshold threshold_def)

theorem threshold_step_witness:
  "data (point threshold ''1'' \<lparr>mode = ''L'', width = 2, height = 1, data = [127, 128]\<rparr>) ! 1 = 255
   \<and> data (point threshold ''1'' \<lparr>mode = ''L'', width = 2, height = 1, data = [127, 128]\<rparr>) ! 0 = 0"
proof -
  let ?g = "\<lparr>mode = ''L'', width = 2, height = 1, data = [127, 128 :: byte]\<rparr>"
  have h1: "1 < length (data ?g)" by simp
  have h0: "0 < length (data ?g)" by simp
  show ?thesis
    using threshold_step [OF h1] threshold_step [OF h0] by simp
qed

text \<open>
  Claim C2. A 2 by 2 image whose luminance bytes are 10, 200, 127, 128 gives the output
  bytes 0, 255, 0, 255.
\<close>

theorem scenario_2x2:
  assumes "width img = 2" and "height img = 2"
    and "data (convert_L luma img) = [10, 200, 127, 128]"
  shows "data (bw luma img) = [0, 255, 0, 255]
    \<and> width (bw luma img) = 2 \<and> height (bw luma img) = 2"
  using assms by (simp add: data_bw width_bw height_bw)

theorem scenario_2x2_witness:
  "data (bw (\<lambda>m d. d) \<lparr>mode = ''L'', width = 2, height = 2, data = [10, 200, 127, 128]\<rparr>)
     = [0, 255, 0, 255]"
proof -
  let ?img = "\<lparr>mode = ''L'', width = 2, height = 2, data = [10, 200, 127, 128 :: byte]\<rparr>"
  have h: "data (convert_L (\<lambda>m d. d) ?img) = [10, 200, 127, 128]"
    by (simp add: convert_L_def)
  show ?thesis
    using scenario_2x2 [of ?img "\<lambda>m d. d"] h by simp
qed

text \<open>
  Claim C3. When the input file decodes to an image and the output path can be written,
  the run succeeds and the file written is the encoding of an image with the width and the
  height of the input: no step between loading and saving changes the size.
\<close>

theorem output_same_size:
  assumes "files w ''prism_logo.png'' = Some bs" and "decode bs = Some img"
    and "writes w ''prism_logo_bw.bmp'' = Completes"
  shows "fst (script decode luma encode w) = None
    \<and> files (snd (script decode luma encode w)) ''prism_logo_bw.bmp'' = Some (encode (bw luma img))
    \<and> width (bw luma img) = width img \<and> height (bw luma img) = height img
    \<and> width (bw luma img) * height (bw luma img) = width img * height img"
  using script_ok [of w bs decode img luma encode] assms
  by (simp add: width_bw height_bw)

theorem output_same_size_witness:
  "files (snd (script (\<lambda>bs. if bs = [] then None
                      else Some \<lparr>mode = ''L'', width = length bs, height = 1, data = bs\<rparr>)
          (\<lambda>m d. d) data
          \<lparr>files = [''prism_logo.png'' \<mapsto> [10, 200]], writes = (\<lambda>p. Completes)\<rparr>))
      ''prism_logo_bw.bmp''
     = Some (data (bw (\<lambda>m d. d) \<lparr>mode = ''L'', width = 2, height = 1, data = [10, 200]\<rparr>))
   \<and> width (bw (\<lambda>m d. d) \<lparr>mode = ''L'', width = 2, height = 1, data = [10, 200]\<rparr>) = 2
   \<and> height (bw (\<lambda>m d. d) \<lparr>mode = ''L'', width = 2, height = 1, data = [10, 200]\<rparr>) = 1"
proof -
  let ?d = "\<lambda>bs. if bs = [] then None
      else Some \<lparr>mode = ''L'', width = length bs, height = 1, data = bs :: byte list\<rparr>"
  let ?w = "\<lparr>files = [''prism_logo.png'' \<mapsto> [10, 200 :: byte]], writes = (\<lambda>p. Completes)\<rparr>"
  let ?img = "\<lparr>mode = ''L'', width = 2, height = 1, data = [10, 200 :: byte]\<rparr>"
  have h1: "files ?w ''prism_logo.png'' = Some [10, 200]" by simp
  have h2: "?d [10, 200] = Some ?img" by simp
  have h3: "writes ?w ''prism_logo_bw.bmp'' = Completes" by simp
  show ?thesis
    using output_same_size [of ?w "[10, 200]" ?d ?img "\<lambda>m d. d" data] h1 h2 h3 by simp
qed

text \<open>
  Claim C4. Thresholding twice is thresholding once, and on a buffer whose bytes are all 0
  or 255 the threshold leaves the bytes as they are.
\<close>

theorem threshold_idempotent:
  "point threshold ''1'' (point threshold ''1'' g) = point threshold ''1'' g
   \<and> ((\<forall>v\<in>set (data g). v = 0 \<or> v = 255) \<longrightarrow> data (point threshold ''1'' g) = data g)"
proof
  have "map (\<lambda>v. lut_of threshold ! unat v) (map (\<lambda>v. lut_of threshold ! unat v) (data g))
      = map (\<lambda>v. lut_of threshold ! unat v) (data g)"
    by (simp add: lut_threshold)
  then show "point threshold ''1'' (point threshold ''1'' g) = point threshold ''1'' g"
    by (simp add: point_def)
next
  show "(\<forall>v\<in>set (data g). v = 0 \<or> v = 255) \<longrightarrow> data (point threshold ''1'' g) = data g"
  proof
    assume b: "\<forall>v\<in>set (data g). v = 0 \<or> v = 255"
    have "map (\<lambda>v. if unat v < 128 then 0 else 255) (data g) = map (\<lambda>v. v) (data g)"
      using b by (intro map_cong refl binary_fixed) blast
    then show "data (point threshold ''1'' g) = data g"
      by (simp add: data_point_threshold)
  qed
qed

theorem threshold_idempotent_witness:
  "data (point threshold ''1'' \<lparr>mode = ''1'', width = 2, height = 1, data = [0, 255]\<rparr>)
     = [0, 255]"
  using threshold_idempotent [of "\<lparr>mode = ''1'', width = 2, height = 1, data = [0, 255]\<rparr>"]
  by simp




text \<open>
  Claim C7. An all-white image of mode L (every byte 255) gives an all-white binary image
  (mode 1, every byte 255) of the same size.
\<close>

theorem all_white:
  assumes "mode img = ''L''" and "\<forall>v\<in>set (data img). v = 255"
  shows "mode (bw luma img) = ''1''
    \<and> data (bw luma img) = replicate (length (data img)) 255
    \<and> width (bw luma img) = width img \<and> height (bw luma img) = height img"
proof -
  have "map (\<lambda>v. if unat v < 128 then 0 else 255 :: byte) (data img)
      = replicate (length (data img)) 255"
    using assms(2) by (intro map_const_replicate) auto
  then show ?thesis
    using assms(1) by (simp add: mode_bw data_bw convert_L_gray width_bw height_bw)
qed

theorem all_white_witness:
  "mode (bw (\<lambda>m d. d) \<lparr>mode = ''L'', width = 2, height = 1, data = [255, 255]\<rparr>) = ''1''
   \<and> data (bw (\<lambda>m d. d) \<lparr>mode = ''L'', width = 2, height = 1, data = [255, 255]\<rparr>)
     = [255, 255]
   \<and> width (bw (\<lambda>m d. d) \<lparr>mode = ''L'', width = 2, height = 1, data = [255, 255]\<rparr>) = 2
   \<and> height (bw (\<lambda>m d. d) \<lparr>mode = ''L'', width = 2, height = 1, data = [255, 255]\<rparr>) = 1"
  using all_white [of "\<lparr>mode = ''L'', width = 2, height = 1, data = [255, 255]\<rparr>" "\<lambda>m d. d"]
  by simp

text \<open>
  Claim C9. The image built on line 7 has mode 1 and each of its bytes is 0 or 255, for
  any input image and any luminance conversion; a successful run writes the encoding of
  such an image.
\<close>

theorem output_binary:
  "mode (bw luma img) = ''1''
   \<and> (\<forall>v\<in>set (data (bw luma img)). v = 0 \<or> v = 255)
   \<and> (fst (script decode luma encode w) = None \<longrightarrow>
        (\<exists>im. files (snd (script decode luma encode w)) ''prism_logo_bw.bmp'' = Some (encode im)
           \<and> mode im = ''1'' \<and> (\<forall>v\<in>set (data im). v = 0 \<or> v = 255)))"
proof (intro conjI impI)
  show "mode (bw luma img) = ''1''" by (rule mode_bw)
  show "\<forall>v\<in>set (data (bw luma img)). v = 0 \<or> v = 255" by (rule bw_binary)
next
  assume ok: "fst (script decode luma encode w) = None"
  then obtain bs im0 where o: "files w ''prism_logo.png'' = Some bs" "decode bs = Some im0"
    "writes w ''prism_logo_bw.bmp'' = Completes"
    using script_None by blast
  have "files (snd (script decode luma encode w)) ''prism_logo_bw.bmp''
      = Some (encode (bw luma im0))"
    using script_ok [of w bs decode im0 luma encode] o by simp
  then show "\<exists>im. files (snd (script decode luma encode w)) ''prism_logo_bw.bmp'' = Some (encode im)
      \<and> mode im = ''1'' \<and> (\<forall>v\<in>set (data im). v = 0 \<or> v = 255)"
    using mode_bw [of luma im0] bw_binary [of luma im0] by blast
qed

theorem output_binary_witness:
  "(data (bw (\<lambda>m d. d) \<lparr>mode = ''L'', width = 2, height = 1, data = [10, 200]\<rparr>) ! 0 = 0
      \<or> data (bw (\<lambda>m d. d) \<lparr>mode = ''L'', width = 2, height = 1, data = [10, 200]\<rparr>) ! 0 = 255)
   \<and> (\<exists>im :: image. files (snd (script (\<lambda>bs. if bs = [] then None
                      else Some \<lparr>mode = ''L'', width = length bs, height = 1, data = bs\<rparr>)
          (\<lambda>m d. d) data
          \<lparr>files = [''prism_logo.png'' \<mapsto> [10, 200]], writes = (\<lambda>p. Completes)\<rparr>))
          ''prism_logo_bw.bmp'' = Some (data im)
        \<and> mode im = ''1'')"
proof -
  let ?d = "\<lambda>bs. if bs = [] then None
      else Some \<lparr>mode = ''L'', width = length bs, height = 1, data = bs :: byte list\<rparr>"
  let ?w = "\<lparr>files = [''prism_logo.png'' \<mapsto> [10, 200 :: byte]], writes = (\<lambda>p. Completes)\<rparr>"
  let ?img = "\<lparr>mode = ''L'', width = 2, height = 1, data = [10, 200 :: byte]\<rparr>"
  note t = output_binary [of "\<lambda>m d. d" ?img ?d data ?w]
  have ok: "fst (script ?d (\<lambda>m d. d) data ?w) = None"
    by (simp add: script_def open_image_def save_def)
  have "data (bw (\<lambda>m d. d) ?img) ! 0 \<in> set (data (bw (\<lambda>m d. d) ?img))"
    by (rule nth_mem) (simp add: data_bw convert_L_def)
  with t have px: "data (bw (\<lambda>m d. d) ?img) ! 0 = 0 \<or> data (bw (\<lambda>m d. d) ?img) ! 0 = 255"
    by blast
  from t ok have "\<exists>im :: image. files (snd (script ?d (\<lambda>m d. d) data ?w)) ''prism_logo_bw.bmp''
      = Some (data im) \<and> mode im = ''1'' \<and> (\<forall>v\<in>set (data im). v = 0 \<or> v = 255)"
    by (elim conjE impE) assumption
  then have "\<exists>im :: image. files (snd (script ?d (\<lambda>m d. d) data ?w)) ''prism_logo_bw.bmp''
      = Some (data im) \<and> mode im = ''1''"
    by (elim exE conjE) (rule exI, erule conjI, assumption)
  with px show ?thesis by (rule conjI)
qed

text \<open>
  Claim C10. For an input of mode L the grayscale conversion returns the image itself,
  and the output byte at each position is the threshold of the input byte at that
  position.
\<close>

theorem gray_input:
  assumes "mode img = ''L''"
  shows "convert_L luma img = img
    \<and> length (data (bw luma img)) = length (data img)
    \<and> (\<forall>i<length (data img). data (bw luma img) ! i = clip8 (threshold (uint (data img ! i))))"
  using assms by (simp add: convert_L_gray bw_def data_point lut_of_nth)

theorem gray_input_witness:
  "data (bw (\<lambda>m d. d) \<lparr>mode = ''L'', width = 2, height = 1, data = [127, 128]\<rparr>) ! 1 = 255
   \<and> data (bw (\<lambda>m d. d) \<lparr>mode = ''L'', width = 2, height = 1, data = [127, 128]\<rparr>) ! 0 = 0"
proof -
  let ?img = "\<lparr>mode = ''L'', width = 2, height = 1, data = [127, 128 :: byte]\<rparr>"
  have m: "mode ?img = ''L''" by simp
  have "\<forall>i<length (data ?img).
      data (bw (\<lambda>m d. d) ?img) ! i = clip8 (threshold (uint (data ?img ! i)))"
    using gray_input [OF m, of "\<lambda>m d. d"] by blast
  then have "data (bw (\<lambda>m d. d) ?img) ! 1 = clip8 (threshold (uint (data ?img ! 1)))"
    and "data (bw (\<lambda>m d. d) ?img) ! 0 = clip8 (threshold (uint (data ?img ! 0)))"
    by simp_all
  then show ?thesis by (simp add: clip8_threshold)
qed

end
